theory Spec2Isabelle
  imports Complex_Main
begin

section \<open>Conventions\<close>

text \<open>
  The sources are two React components: the collage editor (\<^verbatim>\<open>CollageGenerator\<close>) and
  the timeline renderer (\<^verbatim>\<open>VideoPreview\<close>), plus the shared \<^verbatim>\<open>types\<close> module.
  JavaScript numbers are modelled by \<^typ>\<open>real\<close>: rounding, \<^verbatim>\<open>NaN\<close> and the
  infinities are outside the model. An optional field \<^verbatim>\<open>f?: T\<close> is a \<^typ>\<open>'a option\<close>,
  and the idiom \<^verbatim>\<open>v || d\<close> on an optional number is \<open>orNum v d\<close>: the default is
  taken when the field is absent and also when it is zero, as in JavaScript.
\<close>

definition orNum :: "real option \<Rightarrow> real \<Rightarrow> real" where
  "orNum v d = (case v of None \<Rightarrow> d | Some n \<Rightarrow> if n = 0 then d else n)"

definition orStr :: "string option \<Rightarrow> string \<Rightarrow> string" where
  "orStr v d = (case v of None \<Rightarrow> d | Some s \<Rightarrow> if s = [] then d else s)"

definition truthyStr :: "string option \<Rightarrow> bool" where
  "truthyStr v = (case v of None \<Rightarrow> False | Some s \<Rightarrow> s \<noteq> [])"

section \<open>Data model (types.ts)\<close>

datatype MediaType = IMAGE | VIDEO

datatype ItemType = ITEM_IMAGE | ITEM_TEXT | ITEM_EFFECT

datatype AnimationType =
  ANIM_NONE | REC_FRAME | RED_CIRCLE | LOCATION_PIN | TAPE | BULB_LINE | HEART_LINE

datatype TransitionType =
  FADE | SLIDE_UP | SLIDE_DOWN | SLIDE_LEFT | SLIDE_RIGHT | ZOOM_IN | ZOOM_OUT

datatype AppState = IDLE | COLLAGE | EDITING | RENDERING | FINISHED

text \<open>
  \<^verbatim>\<open>CanvasItem\<close>, with the \<^verbatim>\<open>imgElement\<close> of \<^verbatim>\<open>RenderCanvasItem\<close> kept as the
  intrinsic size of the decoded image.
\<close>

record CanvasItem =
  item_id :: string
  item_type :: ItemType
  item_x :: real
  item_y :: real
  item_width :: real
  item_height :: real
  item_scale :: real
  item_rotation :: "real option"
  item_zIndex :: real
  item_sourceUrl :: "string option"
  item_imgOffset :: "(real \<times> real) option"
  item_imgZoom :: "real option"
  item_imgBaseScale :: "real option"
  item_isSticker :: "bool option"
  item_text :: "string option"
  item_fontFamily :: "string option"
  item_fontSize :: "real option"
  item_color :: "string option"
  item_strokeColor :: "string option"
  item_strokeWidth :: "real option"
  item_backgroundColor :: "string option"
  item_backgroundOpacity :: "real option"
  item_backgroundPadding :: "real option"
  item_backgroundRadius :: "real option"
  item_animationType :: "AnimationType option"
  item_imgElement :: "(real \<times> real) option"

record CollageData =
  collage_items :: "CanvasItem list"
  collage_bgGradientId :: string
  collage_title :: string

record UploadedMedia =
  media_id :: string
  media_type :: MediaType
  media_fileName :: "string option"
  media_missing :: "bool option"
  media_duration :: "real option"
  media_enableOriginalAudio :: "bool option"
  media_collageData :: "CollageData option"
  media_overlayText :: "CanvasItem option"
  media_overlayEffects :: "CanvasItem list option"
  media_transition :: "TransitionType option"

record VideoSettings =
  photoDuration :: real
  transitionDuration :: real
  resolution_width :: real
  resolution_height :: real

definition truthy :: "bool option \<Rightarrow> bool" where
  "truthy b = (b = Some True)"

section \<open>Timeline renderer: clock to slide (VideoPreview.drawFrame)\<close>

text \<open>
  The duration of one slide in milliseconds:
  \<^verbatim>\<open>(m.type === 'video' ? (m.duration || 5) : settings.photoDuration) * 1000\<close>.
\<close>

definition slideMs :: "VideoSettings \<Rightarrow> UploadedMedia \<Rightarrow> real" where
  "slideMs settings m =
     (if media_type m = VIDEO then orNum (media_duration m) 5 else photoDuration settings) * 1000"

definition calculateTotalDuration :: "VideoSettings \<Rightarrow> UploadedMedia list \<Rightarrow> real" where
  "calculateTotalDuration settings mediaList =
     foldl (\<lambda>acc item. acc + slideMs settings item) 0 mediaList"

text \<open>
  The search loop of \<^verbatim>\<open>drawFrame\<close>. Its three variables are \<^verbatim>\<open>slideIndex\<close>,
  \<^verbatim>\<open>slideDuration\<close> and \<^verbatim>\<open>currentSlideStart\<close>; \<open>i\<close> is the loop counter. When
  no slide contains the clock the loop ends with the initial index and duration (both zero)
  and with \<^verbatim>\<open>currentSlideStart\<close> at the total.
\<close>

record SlideLookup =
  slideIndex :: nat
  slideDuration :: real
  currentSlideStart :: real

fun findSlide :: "real list \<Rightarrow> real \<Rightarrow> nat \<Rightarrow> real \<Rightarrow> SlideLookup" where
  "findSlide [] loopTime i start =
     \<lparr>slideIndex = 0, slideDuration = 0, currentSlideStart = start\<rparr>"
| "findSlide (d # ds) loopTime i start =
     (if loopTime \<ge> start \<and> loopTime < start + d
      then \<lparr>slideIndex = i, slideDuration = d, currentSlideStart = start\<rparr>
      else findSlide ds loopTime (Suc i) (start + d))"

definition locateSlide :: "VideoSettings \<Rightarrow> UploadedMedia list \<Rightarrow> real \<Rightarrow> SlideLookup" where
  "locateSlide settings mediaList loopTime =
     findSlide (map (slideMs settings) mediaList) loopTime 0 0"

definition timeInSlide :: "SlideLookup \<Rightarrow> real \<Rightarrow> real" where
  "timeInSlide lk loopTime = loopTime - currentSlideStart lk"

definition effectiveTransitionDuration :: "VideoSettings \<Rightarrow> SlideLookup \<Rightarrow> real" where
  "effectiveTransitionDuration settings lk =
     min (transitionDuration settings * 1000) (slideDuration lk)"

definition transitionStart :: "VideoSettings \<Rightarrow> SlideLookup \<Rightarrow> real" where
  "transitionStart settings lk =
     max 0 (slideDuration lk - effectiveTransitionDuration settings lk)"

text \<open>
  The branch condition of the main render pipeline: the transition phase is entered when
  there is more than one slide, the frame is not the last slide of an export, and the local
  time has reached \<^verbatim>\<open>transitionStart\<close>. The test \<^verbatim>\<open>slideIndex === mediaList.length - 1\<close>
  is written on naturals as \<open>Suc slideIndex = length mediaList\<close>.
\<close>

definition inTransition ::
  "AppState \<Rightarrow> VideoSettings \<Rightarrow> UploadedMedia list \<Rightarrow> real \<Rightarrow> bool" where
  "inTransition appState settings mediaList loopTime =
     (let lk = locateSlide settings mediaList loopTime in
      \<not> (length mediaList = 1 \<or>
         (appState = RENDERING \<and> Suc (slideIndex lk) = length mediaList)) \<and>
      \<not> (timeInSlide lk loopTime < transitionStart settings lk))"

text \<open>A plain photo slide and the settings of the scenario of three 3000 ms slides.\<close>

definition photo :: "string \<Rightarrow> UploadedMedia" where
  "photo name =
     \<lparr>media_id = name, media_type = IMAGE, media_fileName = Some name, media_missing = None,
      media_duration = None, media_enableOriginalAudio = None, media_collageData = None,
      media_overlayText = None, media_overlayEffects = None, media_transition = None\<rparr>"

definition settings3 :: VideoSettings where
  "settings3 = \<lparr>photoDuration = 3, transitionDuration = 1,
     resolution_width = 960, resolution_height = 720\<rparr>"

definition threeSlides :: "UploadedMedia list" where
  "threeSlides = [photo ''a'', photo ''b'', photo ''c'']"


section \<open>Canvas operations\<close>

text \<open>
  A drawing routine is modelled by the list of calls and property assignments it issues on
  the 2D context, in order: \<open>Set\<close> is an assignment to a context property, \<open>Path\<close> a
  call that extends the current path. Text that the source writes in Chinese is kept as a
  constructor of \<open>label\<close>; a font built from an item's size and family is \<open>ItemFont\<close>.
\<close>

datatype label = Lit string | FileMissing string | PleaseReupload

datatype font = FontLit string | ItemFont "real option" "string option"

datatype style =
    FillStyle string | FillGradient real real real real string string
  | StrokeStyle string | LineWidth real | LineCap string | LineJoin string
  | LineDash "real list" | LineDashOffset real
  | GlobalAlpha real
  | ShadowColor string | ShadowBlur real | ShadowOffsetX real | ShadowOffsetY real
  | Font font | TextAlign string | TextBaseline string

datatype path =
    MoveTo real real | LineTo real real
  | Rect real real real real | RoundRect real real real real real
  | Arc real real real real real
  | Ellipse real real real real real real real
  | BezierCurveTo real real real real real real
  | QuadraticCurveTo real real real real
  | ClosePath

datatype canvas_op =
    Save | Restore
  | Translate real real | Rotate real | Scale real real
  | BeginPath | Path path
  | Stroke | Fill | Clip
  | FillRect real real real real | StrokeRect real real real real
  | FillText label real real | StrokeText label real real
  | DrawImage string real real real real
  | Set style

section \<open>Decoration drawing: the loops of the tape effect\<close>

text \<open>
  The tape effect calls \<^verbatim>\<open>Math.random()\<close> once per edge vertex. The values are taken
  from a stream \<open>rnd\<close>, read from position \<open>k\<close> on. The four \<^verbatim>\<open>for\<close> loops step a
  real counter by 5 or by \<^verbatim>\<open>gridSize\<close>, which is the constant 10; each terminates
  because the distance to its bound shrinks by a whole step.
\<close>

lemma tapeTop_measure:
  "i \<le> (w::real) \<Longrightarrow> nat \<lfloor>w - (i + 5) + 5\<rfloor> < nat \<lfloor>w - i + 5\<rfloor>"
proof -
  assume h: "i \<le> w"
  have e: "\<lfloor>w - i + 5\<rfloor> = \<lfloor>w - i\<rfloor> + 5" by linarith
  have "0 \<le> \<lfloor>w - i\<rfloor>" using h by simp
  then show ?thesis using e by (simp add: algebra_simps) linarith
qed

lemma tapeBottom_measure:
  "0 \<le> (i::real) \<Longrightarrow> nat \<lfloor>i - 5 + 5\<rfloor> < nat \<lfloor>i + 5\<rfloor>"
proof -
  assume h: "0 \<le> i"
  have e: "\<lfloor>i + 5\<rfloor> = \<lfloor>i\<rfloor> + 5" by linarith
  have "0 \<le> \<lfloor>i\<rfloor>" using h by simp
  then show ?thesis using e by simp linarith
qed

lemma grid_measure:
  "x < (w::real) \<Longrightarrow> nat \<lceil>w - (x + 10)\<rceil> < nat \<lceil>w - x\<rceil>"
proof -
  assume h: "x < w"
  have e: "\<lceil>w - (x + 10)\<rceil> = \<lceil>w - x\<rceil> - 10" by linarith
  have "0 < \<lceil>w - x\<rceil>" using h by simp
  then show ?thesis using e by simp
qed

function tapeTop :: "(nat \<Rightarrow> real) \<Rightarrow> real \<Rightarrow> real \<Rightarrow> nat \<Rightarrow> canvas_op list" where
  "tapeTop rnd i w k =
     (if i \<le> w then Path (LineTo i (rnd k * 2)) # tapeTop rnd (i + 5) w (Suc k) else [])"
  by pat_completeness auto
termination
  by (relation "measure (\<lambda>(rnd, i, w, k). nat \<lfloor>w - i + 5\<rfloor>)")
    (simp_all only: tapeTop_measure in_measure wf_measure prod.case)

function tapeBottom :: "(nat \<Rightarrow> real) \<Rightarrow> real \<Rightarrow> real \<Rightarrow> nat \<Rightarrow> canvas_op list" where
  "tapeBottom rnd i h k =
     (if i \<ge> 0 then Path (LineTo i (h - rnd k * 2)) # tapeBottom rnd (i - 5) h (Suc k) else [])"
  by pat_completeness auto
termination
  by (relation "measure (\<lambda>(rnd, i, h, k). nat \<lfloor>i + 5\<rfloor>)")
    (simp_all only: tapeBottom_measure in_measure wf_measure prod.case)

function gridVertical :: "real \<Rightarrow> real \<Rightarrow> real \<Rightarrow> canvas_op list" where
  "gridVertical x w h =
     (if x < w then Path (MoveTo x 0) # Path (LineTo x h) # gridVertical (x + 10) w h else [])"
  by pat_completeness auto
termination
  by (relation "measure (\<lambda>(x, w, h). nat \<lceil>w - x\<rceil>)")
    (simp_all only: grid_measure in_measure wf_measure prod.case)

function gridHorizontal :: "real \<Rightarrow> real \<Rightarrow> real \<Rightarrow> canvas_op list" where
  "gridHorizontal y w h =
     (if y < h then Path (MoveTo 0 y) # Path (LineTo w y) # gridHorizontal (y + 10) w h else [])"
  by pat_completeness auto
termination
  by (relation "measure (\<lambda>(y, w, h). nat \<lceil>h - y\<rceil>)")
    (simp_all only: grid_measure in_measure wf_measure prod.case)

declare tapeTop.simps [simp del]

declare tapeBottom.simps [simp del]

declare gridVertical.simps [simp del]

declare gridHorizontal.simps [simp del]

section \<open>Decoration drawing in the collage editor (CollageGenerator.drawFrame)\<close>

text \<open>
  The padding of the forward transform: \<^verbatim>\<open>backgroundPadding || 0\<close> for a text item with a
  background colour, zero otherwise.
\<close>

definition drawPad :: "CanvasItem \<Rightarrow> real" where
  "drawPad item =
     (if item_type item = ITEM_TEXT \<and> truthyStr (item_backgroundColor item)
      then orNum (item_backgroundPadding item) 0 else 0)"

text \<open>
  The transform that opens the body of the draw loop: translate to the centre, rotate,
  scale, translate to the top left corner, and step over the padding when there is one.
\<close>

definition itemTransform :: "CanvasItem \<Rightarrow> canvas_op list" where
  "itemTransform item =
     (let w = item_width item; h = item_height item; p = drawPad item;
          halfW = (w + p * 2) / 2; halfH = (h + p * 2) / 2;
          cx = item_x item + halfW * item_scale item;
          cy = item_y item + halfH * item_scale item
      in [Translate cx cy, Rotate (orNum (item_rotation item) 0),
          Scale (item_scale item) (item_scale item), Translate (- halfW) (- halfH)] @
         (if p > 0 then [Translate p p] else []))"

text \<open>
  The \<^verbatim>\<open>switch (item.animationType)\<close> of the editor's \<^verbatim>\<open>drawFrame\<close>. The result is the list
  of operations; the tape effect reads the random stream from position \<open>k\<close>.
\<close>

fun collageEffectSwitch :: "(nat \<Rightarrow> real) \<Rightarrow> nat \<Rightarrow> AnimationType \<Rightarrow> real \<Rightarrow> real \<Rightarrow> real \<Rightarrow> canvas_op list" where
  "collageEffectSwitch rnd k REC_FRAME w h t =
     (let cornerLen = min w h * 0.2 in
      [BeginPath, Path (MoveTo 0 cornerLen), Path (LineTo 0 0), Path (LineTo cornerLen 0), Stroke,
       BeginPath, Path (MoveTo (w - cornerLen) 0), Path (LineTo w 0), Path (LineTo w cornerLen), Stroke,
       BeginPath, Path (MoveTo 0 (h - cornerLen)), Path (LineTo 0 h), Path (LineTo cornerLen h), Stroke,
       BeginPath, Path (MoveTo (w - cornerLen) h), Path (LineTo w h), Path (LineTo w (h - cornerLen)), Stroke,
       Set (Font (FontLit ''bold 20px sans-serif'')),
       FillText (Lit ''REC'') 20 30] @
      (if \<lfloor>t * 2\<rfloor> mod 2 = 0
       then [Set (FillStyle ''#ef4444''), BeginPath, Path (Arc 10 23 5 0 (pi * 2)), Fill]
       else []))"
| "collageEffectSwitch rnd k RED_CIRCLE w h t =
     (let circ = pi * max w h in
      [Set (StrokeStyle ''#ef4444''), Set (LineWidth 4), BeginPath, Save,
       Translate (w / 2) (h / 2),
       Set (LineDash [circ, circ]), Set (LineDashOffset (circ - circ * min 1 t)),
       BeginPath, Path (Ellipse 0 0 (w / 2 - 5) (h / 2 - 5) 0 0 (pi * 2)), Stroke,
       Set (GlobalAlpha 0.6),
       BeginPath, Path (Ellipse 1 1 (w / 2 - 6) (h / 2 - 4) 0.1 0 (pi * 2)), Stroke,
       Restore])"
| "collageEffectSwitch rnd k LOCATION_PIN w h t =
     (let pinW = min w h * 0.5; pinX = w / 2; pinY = h - 10; bob = sin (t * 5) * 5 in
      [Save, Translate pinX (pinY - pinW - bob), BeginPath, Path (MoveTo 0 pinW),
       Path (BezierCurveTo (- pinW / 2) (pinW / 2) (- pinW) 0 (- pinW) (- pinW / 4)),
       Path (Arc 0 (- pinW / 4) pinW pi 0),
       Path (BezierCurveTo pinW 0 (pinW / 2) (pinW / 2) 0 pinW), Path ClosePath, Stroke,
       Set (FillStyle ''#ffffff''), BeginPath, Path (Arc 0 (- pinW / 4) (pinW / 3) 0 (pi * 2)),
       Fill, Restore,
       Save, Translate pinX pinY, Scale 1 0.3, Set (FillStyle ''rgba(0,0,0,0.3)''),
       BeginPath, Path (Arc 0 0 (10 + \<bar>bob\<bar>) 0 (pi * 2)), Fill, Restore])"
| "collageEffectSwitch rnd k TAPE w h t =
     (let top = tapeTop rnd 0 w k; bottom = tapeBottom rnd w h (k + length top) in
      [Save, Set (GlobalAlpha 0.6), Set (FillStyle ''#ffffff''), BeginPath, Path (MoveTo 0 0)] @
      top @ [Path (LineTo w h)] @ bottom @ [Path (LineTo 0 0), Fill,
       Clip, Set (StrokeStyle ''#cbd5e1''), Set (LineWidth 1), BeginPath] @
      gridVertical 0 w h @ gridHorizontal 0 w h @ [Stroke, Restore])"
| "collageEffectSwitch rnd k BULB_LINE w h t =
     (let bulbW = min w h * 0.6; bX = w / 2; bY = h / 2; flicker = 0.8 + sin (t * 20) * 0.2 in
      [Save, Translate bX bY, Set (GlobalAlpha flicker), BeginPath,
       Path (Arc 0 (- bulbW / 2) (bulbW / 2) (pi * 0.8) (pi * 2.2)),
       Path (QuadraticCurveTo (bulbW / 2) 0 (bulbW / 4) (bulbW / 2)),
       Path (LineTo (- bulbW / 4) (bulbW / 2)),
       Path (QuadraticCurveTo (- bulbW / 2) 0 (- bulbW * 0.48) (- bulbW * 0.25)), Stroke,
       BeginPath, Path (MoveTo (- 10) 0), Path (LineTo (- 5) (- 20)), Path (LineTo 5 (- 20)),
       Path (LineTo 10 0), Stroke] @
      (if sin (t * 5) > 0
       then [BeginPath, Path (MoveTo 0 (- bulbW)), Path (LineTo 0 (- bulbW - 10)),
             Path (MoveTo bulbW (- bulbW / 2)), Path (LineTo (bulbW + 10) (- bulbW / 2 - 10)),
             Path (MoveTo (- bulbW) (- bulbW / 2)), Path (LineTo (- bulbW - 10) (- bulbW / 2 - 10)),
             Stroke]
       else []) @
      [Restore])"
| "collageEffectSwitch rnd k HEART_LINE w h t =
     (let heartScale = min w h / 100; beat = 1 + sin (t * 8) * 0.05 in
      [Save, Translate (w / 2) (h / 2), Scale (heartScale * beat) (heartScale * beat),
       BeginPath, Path (MoveTo 0 20),
       Path (BezierCurveTo 0 (- 10) (- 50) (- 10) (- 50) 20),
       Path (BezierCurveTo (- 50) 50 0 80 0 90),
       Path (BezierCurveTo 0 80 50 50 50 20),
       Path (BezierCurveTo 50 (- 10) 0 (- 10) 0 20),
       Path (BezierCurveTo 50 (- 10) 0 (- 10) 0 20),
       Stroke, Restore])"
| "collageEffectSwitch rnd k ANIM_NONE w h t = []"

text \<open>
  The clock of the editor's animations: \<^verbatim>\<open>(Date.now() / 1000) % 3\<close>. \<open>jsRem\<close> is the
  remainder operator of JavaScript, whose quotient is truncated towards zero.
\<close>

definition jsRem :: "real \<Rightarrow> real \<Rightarrow> real" where
  "jsRem a b = a - b * real_of_int (if a / b \<ge> 0 then \<lfloor>a / b\<rfloor> else \<lceil>a / b\<rceil>)"

definition collageTime :: "real \<Rightarrow> real" where
  "collageTime now = jsRem (now / 1000) 3"

text \<open>
  One pass of the draw loop for an item of type \<^verbatim>\<open>effect\<close>, at wall-clock time \<open>now\<close>
  in milliseconds: \<^verbatim>\<open>save\<close>, the transform, the stroke settings, the switch, and
  \<^verbatim>\<open>restore\<close>. (An item whose \<^verbatim>\<open>animationType\<close> is absent matches no case.)
\<close>

definition collageDrawEffect :: "(nat \<Rightarrow> real) \<Rightarrow> nat \<Rightarrow> CanvasItem \<Rightarrow> real \<Rightarrow> canvas_op list" where
  "collageDrawEffect rnd k item now =
     (let w = item_width item; h = item_height item; t = collageTime now in
      [Save] @ itemTransform item @
      [Set (StrokeStyle ''#ffffff''), Set (FillStyle ''#ffffff''), Set (LineWidth 3),
       Set (LineCap ''round''), Set (LineJoin ''round''),
       Set (ShadowColor ''rgba(0,0,0,0.2)''), Set (ShadowBlur 2)] @
      (case item_animationType item of
         None \<Rightarrow> []
       | Some a \<Rightarrow> collageEffectSwitch rnd k a w h t) @
      [Restore])"

section \<open>Decoration drawing in the timeline renderer (VideoPreview.drawEffect)\<close>

text \<open>
  The \<^verbatim>\<open>switch (item.animationType)\<close> of \<^verbatim>\<open>drawEffect\<close>. The result is the list
  of operations; the tape effect reads the random stream from position \<open>k\<close>.
\<close>

fun previewEffectSwitch :: "(nat \<Rightarrow> real) \<Rightarrow> nat \<Rightarrow> AnimationType \<Rightarrow> real \<Rightarrow> real \<Rightarrow> real \<Rightarrow> canvas_op list" where
  "previewEffectSwitch rnd k REC_FRAME w h t =
     (let cornerLen = min w h * 0.2 in
      [BeginPath, Path (MoveTo 0 cornerLen), Path (LineTo 0 0), Path (LineTo cornerLen 0), Stroke,
       BeginPath, Path (MoveTo (w - cornerLen) 0), Path (LineTo w 0), Path (LineTo w cornerLen), Stroke,
       BeginPath, Path (MoveTo 0 (h - cornerLen)), Path (LineTo 0 h), Path (LineTo cornerLen h), Stroke,
       BeginPath, Path (MoveTo (w - cornerLen) h), Path (LineTo w h), Path (LineTo w (h - cornerLen)), Stroke,
       Set (Font (FontLit ''bold 20px sans-serif'')),
       FillText (Lit ''REC'') 20 30] @
      (if \<lfloor>t * 2\<rfloor> mod 2 = 0
       then [Set (FillStyle ''#ef4444''), BeginPath, Path (Arc 10 23 5 0 (pi * 2)), Fill]
       else []))"
| "previewEffectSwitch rnd k RED_CIRCLE w h t =
     (let circ = pi * max w h in
      [Set (StrokeStyle ''#ef4444''), Set (LineWidth 4), BeginPath, Save,
       Translate (w / 2) (h / 2),
       Set (LineDash [circ, circ]), Set (LineDashOffset (circ - circ * min 1 t)),
       BeginPath, Path (Ellipse 0 0 (w / 2 - 5) (h / 2 - 5) 0 0 (pi * 2)), Stroke,
       Set (GlobalAlpha 0.6),
       BeginPath, Path (Ellipse 1 1 (w / 2 - 6) (h / 2 - 4) 0.1 0 (pi * 2)), Stroke,
       Restore])"
| "previewEffectSwitch rnd k LOCATION_PIN w h t =
     (let pinW = min w h * 0.5; pinX = w / 2; pinY = h - 10; bob = sin (t * 5) * 5 in
      [Save, Translate pinX (pinY - pinW - bob), BeginPath, Path (MoveTo 0 pinW),
       Path (BezierCurveTo (- pinW / 2) (pinW / 2) (- pinW) 0 (- pinW) (- pinW / 4)),
       Path (Arc 0 (- pinW / 4) pinW pi 0),
       Path (BezierCurveTo pinW 0 (pinW / 2) (pinW / 2) 0 pinW), Path ClosePath, Stroke,
       Set (FillStyle ''#ffffff''), BeginPath, Path (Arc 0 (- pinW / 4) (pinW / 3) 0 (pi * 2)),
       Fill, Restore,
       Save, Translate pinX pinY, Scale 1 0.3, Set (FillStyle ''rgba(0,0,0,0.3)''),
       BeginPath, Path (Arc 0 0 (10 + \<bar>bob\<bar>) 0 (pi * 2)), Fill, Restore])"
| "previewEffectSwitch rnd k TAPE w h t =
     (let top = tapeTop rnd 0 w k; bottom = tapeBottom rnd w h (k + length top) in
      [Save, Set (GlobalAlpha 0.6), Set (FillStyle ''#ffffff''), BeginPath, Path (MoveTo 0 0)] @
      top @ [Path (LineTo w h)] @ bottom @ [Path (LineTo 0 0), Fill,
       Clip, Set (StrokeStyle ''#cbd5e1''), Set (LineWidth 1), BeginPath] @
      gridVertical 0 w h @ gridHorizontal 0 w h @ [Stroke, Restore])"
| "previewEffectSwitch rnd k BULB_LINE w h t =
     (let bulbW = min w h * 0.6; bX = w / 2; bY = h / 2; flicker = 0.8 + sin (t * 20) * 0.2 in
      [Save, Translate bX bY, Set (GlobalAlpha flicker), BeginPath,
       Path (Arc 0 (- bulbW / 2) (bulbW / 2) (pi * 0.8) (pi * 2.2)),
       Path (QuadraticCurveTo (bulbW / 2) 0 (bulbW / 4) (bulbW / 2)),
       Path (LineTo (- bulbW / 4) (bulbW / 2)),
       Path (QuadraticCurveTo (- bulbW / 2) 0 (- bulbW * 0.48) (- bulbW * 0.25)), Stroke,
       BeginPath, Path (MoveTo (- 10) 0), Path (LineTo (- 5) (- 20)), Path (LineTo 5 (- 20)),
       Path (LineTo 10 0), Stroke] @
      (if sin (t * 5) > 0
       then [BeginPath, Path (MoveTo 0 (- bulbW)), Path (LineTo 0 (- bulbW - 10)),
             Path (MoveTo bulbW (- bulbW / 2)), Path (LineTo (bulbW + 10) (- bulbW / 2 - 10)),
             Path (MoveTo (- bulbW) (- bulbW / 2)), Path (LineTo (- bulbW - 10) (- bulbW / 2 - 10)),
             Stroke]
       else []) @
      [Restore])"
| "previewEffectSwitch rnd k HEART_LINE w h t =
     (let heartScale = min w h / 100; beat = 1 + sin (t * 8) * 0.05 in
      [Save, Translate (w / 2) (h / 2), Scale (heartScale * beat) (heartScale * beat),
       BeginPath, Path (MoveTo 0 20),
       Path (BezierCurveTo 0 (- 10) (- 50) (- 10) (- 50) 20),
       Path (BezierCurveTo (- 50) 50 0 80 0 90),
       Path (BezierCurveTo 0 80 50 50 50 20),
       Path (BezierCurveTo 50 (- 10) 0 (- 10) 0 20),
       Path (BezierCurveTo 50 (- 10) 0 (- 10) 0 20),
       Stroke, Restore])"
| "previewEffectSwitch rnd k ANIM_NONE w h t = []"

text \<open>
  The part of the renderer's state that decides whether selection handles are drawn.
\<close>

record PreviewUi =
  ui_appState :: AppState
  ui_isPlaying :: bool
  ui_selectedMediaId :: "string option"
  ui_selectedOverlayId :: "string option"

text \<open>
  \<^verbatim>\<open>drawEffect(item, timeSec)\<close>, called for the slide \<open>current\<close>. It returns at once
  for an item that is not an effect or has no animation type; otherwise it draws the
  decoration at \<open>timeSec\<close> and, when the item is the selected overlay of the selected
  slide outside playback and export, its selection frame and handle.
\<close>

definition drawEffect ::
  "PreviewUi \<Rightarrow> UploadedMedia \<Rightarrow> (nat \<Rightarrow> real) \<Rightarrow> nat \<Rightarrow> CanvasItem \<Rightarrow> real \<Rightarrow> canvas_op list" where
  "drawEffect ui current rnd k item timeSec =
     (case item_animationType item of
        None \<Rightarrow> []
      | Some a \<Rightarrow>
          if item_type item \<noteq> ITEM_EFFECT then []
          else
            (let cx = item_x item + item_width item * item_scale item / 2;
                 cy = item_y item + item_height item * item_scale item / 2;
                 w = item_width item; h = item_height item; t = timeSec
             in [Save, Translate cx cy, Rotate (orNum (item_rotation item) 0),
                 Scale (item_scale item) (item_scale item),
                 Translate (- item_width item / 2) (- item_height item / 2),
                 Set (TextAlign ''center''), Set (TextBaseline ''middle''),
                 Set (StrokeStyle ''#ffffff''), Set (FillStyle ''#ffffff''), Set (LineWidth 3),
                 Set (LineCap ''round''), Set (LineJoin ''round''),
                 Set (ShadowColor ''rgba(0,0,0,0.2)''), Set (ShadowBlur 2)] @
                previewEffectSwitch rnd k a w h t @
                [Restore] @
                (if ui_selectedMediaId ui = Some (media_id current) \<and>
                    ui_selectedOverlayId ui = Some (item_id item) \<and>
                    \<not> ui_isPlaying ui \<and> ui_appState ui \<noteq> RENDERING
                 then
                   (let hSize = 10 / item_scale item in
                    [Save, Translate cx cy, Rotate (orNum (item_rotation item) 0),
                     Scale (item_scale item) (item_scale item),
                     Translate (- item_width item / 2) (- item_height item / 2),
                     Set (StrokeStyle ''#3b82f6''), Set (LineWidth (2 / item_scale item)),
                     Set (LineDash [5, 3]),
                     StrokeRect 0 0 (item_width item) (item_height item),
                     Set (FillStyle ''#3b82f6''), Set (LineDash []), BeginPath,
                     Path (Arc (item_width item) (item_height item) hSize 0 (pi * 2)),
                     Fill, Restore])
                 else [])))"

section \<open>Timeline renderer: drawing one frame (VideoPreview.drawFrame)\<close>

text \<open>
  What the renderer reads from the browser: the width a text measures in a font, whether
  the context has \<^verbatim>\<open>roundRect\<close>, and the cache of decoded collage images by URL (their
  intrinsic sizes). A decoded slide is an \<^verbatim>\<open>HTMLImageElement\<close> or an
  \<^verbatim>\<open>HTMLVideoElement\<close>, kept as its source and intrinsic size.
\<close>

record Env =
  measureText :: "font \<Rightarrow> string \<Rightarrow> real"
  hasRoundRect :: bool
  collageAssets :: "string \<Rightarrow> (real \<times> real) option"

datatype MediaElement = ImageElement string real real | VideoElement string real real


definition GRADIENTS :: "(string \<times> string \<times> string) list" where
  "GRADIENTS =
     [(''red'', ''#fef2f2'', ''#fecaca''), (''orange'', ''#fff7ed'', ''#fed7aa''),
      (''yellow'', ''#fefce8'', ''#fef08a''), (''green'', ''#f0fdf4'', ''#bbf7d0''),
      (''blue'', ''#eff6ff'', ''#bfdbfe''), (''purple'', ''#faf5ff'', ''#e9d5ff''),
      (''dark'', ''#1e293b'', ''#0f172a'')]"

definition gradientDef :: "string \<Rightarrow> string \<times> string \<times> string" where
  "gradientDef gid =
     (case find (\<lambda>g. fst g = gid) GRADIENTS of
        Some g \<Rightarrow> g
      | None \<Rightarrow> (''red'', ''#fef2f2'', ''#fecaca''))"


definition renderPlaceholder :: "real \<Rightarrow> real \<Rightarrow> string \<Rightarrow> real \<Rightarrow> canvas_op list" where
  "renderPlaceholder W H missingName alpha =
     [Save, Set (GlobalAlpha alpha), Set (FillStyle ''#1e293b''), FillRect 0 0 W H,
      Set (FillStyle ''#94a3b8''), Set (Font (FontLit ''24px sans-serif'')),
      Set (TextAlign ''center''), Set (TextBaseline ''middle''),
      FillText (FileMissing missingName) (W / 2) (H / 2),
      Set (Font (FontLit ''16px sans-serif'')),
      FillText PleaseReupload (W / 2) (H / 2 + 30), Restore]"

text \<open>
  The number of values \<^verbatim>\<open>drawEffect\<close> reads from the random stream: only the tape
  effect reads any, one per vertex of its two jagged edges.
\<close>

definition drawEffectReads :: "(nat \<Rightarrow> real) \<Rightarrow> nat \<Rightarrow> CanvasItem \<Rightarrow> nat" where
  "drawEffectReads rnd k item =
     (if item_type item = ITEM_EFFECT \<and> item_animationType item = Some TAPE
      then (let top = tapeTop rnd 0 (item_width item) k
            in length top +
               length (tapeBottom rnd (item_width item) (item_height item) (k + length top)))
      else 0)"

text \<open>One item of a collage slide, as the loop body of \<^verbatim>\<open>renderCollageFrame\<close> draws it.\<close>

definition collageItemOps ::
  "Env \<Rightarrow> PreviewUi \<Rightarrow> UploadedMedia \<Rightarrow> (nat \<Rightarrow> real) \<Rightarrow> nat \<Rightarrow> real \<Rightarrow> CanvasItem \<Rightarrow> canvas_op list" where
  "collageItemOps env ui current rnd k timeSec item =
     (if item_type item = ITEM_IMAGE \<and> truthyStr (item_sourceUrl item) then
        (case collageAssets env (the (item_sourceUrl item)) of
           None \<Rightarrow> []
         | Some (imgW, imgH) \<Rightarrow>
             (let drawW = imgW * orNum (item_imgBaseScale item) 1 * orNum (item_imgZoom item) 1;
                  drawH = imgH * orNum (item_imgBaseScale item) 1 * orNum (item_imgZoom item) 1;
                  cX = (item_width item - drawW) / 2;
                  cY = (item_height item - drawH) / 2;
                  x = cX + (case item_imgOffset item of None \<Rightarrow> 0 | Some (ox, oy) \<Rightarrow> ox);
                  y = cY + (case item_imgOffset item of None \<Rightarrow> 0 | Some (ox, oy) \<Rightarrow> oy)
              in [Save, Translate (item_x item) (item_y item),
                  Scale (item_scale item) (item_scale item),
                  Set (ShadowColor ''rgba(0,0,0,0.3)''), Set (ShadowBlur 10),
                  Set (ShadowOffsetX 3), Set (ShadowOffsetY 3),
                  BeginPath, Path (Rect 0 0 (item_width item) (item_height item)), Clip,
                  Set (ShadowColor ''transparent''),
                  DrawImage (the (item_sourceUrl item)) x y drawW drawH, Restore]))
      else if item_type item = ITEM_TEXT then
        (let p = orNum (item_backgroundPadding item) 0;
             halfW = (item_width item + p * 2) / 2;
             halfH = (item_height item + p * 2) / 2;
             cx = item_x item + halfW * item_scale item;
             cy = item_y item + halfH * item_scale item;
             txt = orStr (item_text item) []
         in [Save, Translate cx cy, Rotate (orNum (item_rotation item) 0),
             Scale (item_scale item) (item_scale item), Translate (- halfW) (- halfH)] @
            (if p > 0 then [Translate p p] else []) @
            [Set (Font (ItemFont (item_fontSize item) (item_fontFamily item))),
             Set (TextBaseline ''top'')] @
            (if truthyStr (item_backgroundColor item) then
               (let bgW = item_width item + p * 2; bgH = item_height item + p * 2;
                    radius = orNum (item_backgroundRadius item) 0;
                    bAlpha = (case item_backgroundOpacity item of None \<Rightarrow> 0.8 | Some a \<Rightarrow> a)
                in [Save, Set (GlobalAlpha bAlpha),
                    Set (FillStyle (the (item_backgroundColor item))), BeginPath,
                    (if hasRoundRect env then Path (RoundRect (- p) (- p) bgW bgH radius)
                     else Path (Rect (- p) (- p) bgW bgH)),
                    Fill, Restore])
             else []) @
            [Set (ShadowColor ''rgba(0,0,0,0.2)''), Set (ShadowBlur 4)] @
            (if orNum (item_strokeWidth item) 0 > 0 then
               [Set (StrokeStyle (orStr (item_strokeColor item) ''#ffffff'')),
                Set (LineWidth (orNum (item_strokeWidth item) 0)), Set (LineJoin ''round''),
                StrokeText (Lit txt) 0 0]
             else []) @
            [Set (FillStyle (orStr (item_color item) ''#000'')), FillText (Lit txt) 0 0, Restore])
      else if item_type item = ITEM_EFFECT then drawEffect ui current rnd k item timeSec
      else [])"

fun collageItemsOps ::
  "Env \<Rightarrow> PreviewUi \<Rightarrow> UploadedMedia \<Rightarrow> (nat \<Rightarrow> real) \<Rightarrow> nat \<Rightarrow> real \<Rightarrow> CanvasItem list \<Rightarrow> canvas_op list \<times> nat" where
  "collageItemsOps env ui current rnd k timeSec [] = ([], k)"
| "collageItemsOps env ui current rnd k timeSec (item # items) =
     (case collageItemsOps env ui current rnd (k + drawEffectReads rnd k item) timeSec items of
        (ops, k') \<Rightarrow> (collageItemOps env ui current rnd k timeSec item @ ops, k'))"

definition renderCollageFrame ::
  "Env \<Rightarrow> PreviewUi \<Rightarrow> UploadedMedia \<Rightarrow> real \<Rightarrow> real \<Rightarrow> (nat \<Rightarrow> real) \<Rightarrow> nat \<Rightarrow>
   CollageData \<Rightarrow> real \<Rightarrow> real \<Rightarrow> real \<Rightarrow> real \<Rightarrow> real \<Rightarrow> canvas_op list \<times> nat" where
  "renderCollageFrame env ui current W H rnd k collage alpha scale offsetX offsetY timeSec =
     (let w = 960; h = 720;
          ratio = min (W / w) (H / h) * scale;
          destW = w * ratio; destH = h * ratio;
          destX = (W - destW) / 2 + offsetX;
          destY = (H - destH) / 2 + offsetY;
          g = gradientDef (collage_bgGradientId collage);
          sorted = sort_key item_zIndex (collage_items collage)
      in (case collageItemsOps env ui current rnd k timeSec sorted of
            (ops, k') \<Rightarrow>
              ([Save, Set (GlobalAlpha (max 0 (min 1 alpha))),
                Translate destX destY, Scale ratio ratio,
                BeginPath, Path (Rect 0 0 w h), Clip,
                Set (FillGradient 0 0 w h (fst (snd g)) (snd (snd g))), FillRect 0 0 w h] @
               ops @ [Restore], k')))"

text \<open>
  \<^verbatim>\<open>renderMedia(media, alpha, scale, offsetX, offsetY, mediaData)\<close>. A slide that carries
  collage data is drawn from that data. Otherwise an absent element draws the placeholder
  when the slide is flagged \<^verbatim>\<open>missing\<close> and nothing when it is not; a decoded element
  is drawn fitted to the canvas.
\<close>

definition renderMedia ::
  "Env \<Rightarrow> PreviewUi \<Rightarrow> UploadedMedia \<Rightarrow> real \<Rightarrow> real \<Rightarrow> real \<Rightarrow> (nat \<Rightarrow> real) \<Rightarrow> nat \<Rightarrow>
   MediaElement option \<Rightarrow> real \<Rightarrow> real \<Rightarrow> real \<Rightarrow> real \<Rightarrow> UploadedMedia option \<Rightarrow>
   canvas_op list \<times> nat" where
  "renderMedia env ui current W H tInSlide rnd k media alpha scale offsetX offsetY mediaData =
     (case (case mediaData of None \<Rightarrow> None | Some md \<Rightarrow> media_collageData md) of
        Some collage \<Rightarrow>
          renderCollageFrame env ui current W H rnd k collage alpha scale offsetX offsetY
            (tInSlide / 1000)
      | None \<Rightarrow>
          (case media of
             None \<Rightarrow>
               (case mediaData of
                  None \<Rightarrow> ([], k)
                | Some md \<Rightarrow>
                    if truthy (media_missing md)
                    then (renderPlaceholder W H (orStr (media_fileName md) ''Unknown'') alpha, k)
                    else ([], k))
           | Some el \<Rightarrow>
               (let src = (case el of ImageElement s _ _ \<Rightarrow> s | VideoElement s _ _ \<Rightarrow> s);
                    mediaW = (case el of ImageElement _ a _ \<Rightarrow> a | VideoElement _ a _ \<Rightarrow> a);
                    mediaH = (case el of ImageElement _ _ b \<Rightarrow> b | VideoElement _ _ b \<Rightarrow> b);
                    ratio = min (W / mediaW) (H / mediaH) * scale;
                    w = mediaW * ratio; h = mediaH * ratio;
                    x = (W - w) / 2 + offsetX;
                    y = (H - h) / 2 + offsetY
                in ([Save, Set (GlobalAlpha (max 0 (min 1 alpha))), DrawImage src x y w h, Restore],
                    k))))"












section \<open>Collage editor: selection handles and pointer handling (CollageGenerator)\<close>

text \<open>
  The selection chrome drawn after an item when it is the selected one. \<open>p\<close> is still the
  padding of the forward transform. In crop mode an image gets a dashed frame with four
  corner squares; otherwise the frame has a resize handle at its bottom right corner and a
  rotation handle 25 pixels above the middle of its top edge.
\<close>

definition HANDLE_SIZE :: real where
  "HANDLE_SIZE = 12"

definition selectionTransform :: "CanvasItem \<Rightarrow> canvas_op list" where
  "selectionTransform item =
     (let p = drawPad item;
          halfW = (item_width item + p * 2) / 2; halfH = (item_height item + p * 2) / 2;
          cx = item_x item + halfW * item_scale item;
          cy = item_y item + halfH * item_scale item
      in [Translate cx cy, Rotate (orNum (item_rotation item) 0),
          Translate (- halfW * item_scale item) (- halfH * item_scale item),
          Scale (item_scale item) (item_scale item)])"

definition selectionOps :: "bool \<Rightarrow> CanvasItem \<Rightarrow> canvas_op list" where
  "selectionOps cropping item =
     (let p = drawPad item; hSize = HANDLE_SIZE / item_scale item in
      [Save] @ selectionTransform item @
      (if cropping \<and> item_type item = ITEM_IMAGE then
         [Set (StrokeStyle ''#f59e0b''), Set (LineWidth (2 / item_scale item)),
          Set (LineDash [5, 3]), StrokeRect 0 0 (item_width item) (item_height item),
          Set (FillStyle ''#f59e0b''),
          FillRect (- hSize / 2) (- hSize / 2) hSize hSize,
          FillRect (item_width item - hSize / 2) (- hSize / 2) hSize hSize,
          FillRect (- hSize / 2) (item_height item - hSize / 2) hSize hSize,
          FillRect (item_width item - hSize / 2) (item_height item - hSize / 2) hSize hSize]
       else
         (let selW = item_width item + p * 2; selH = item_height item + p * 2;
              rotHandleDist = 25 / item_scale item
          in [Set (StrokeStyle ''#3b82f6''), Set (LineWidth (2 / item_scale item)),
              StrokeRect 0 0 selW selH,
              Set (FillStyle ''#3b82f6''), BeginPath, Path (Arc selW selH hSize 0 (pi * 2)), Fill,
              Set (FillStyle ''#fff''), BeginPath, Path (Arc selW selH (hSize / 2) 0 (pi * 2)), Fill,
              BeginPath, Path (MoveTo (selW / 2) 0), Path (LineTo (selW / 2) (- rotHandleDist)),
              Set (StrokeStyle ''#3b82f6''), Stroke,
              Set (FillStyle ''#3b82f6''), BeginPath,
              Path (Arc (selW / 2) (- rotHandleDist) hSize 0 (pi * 2)), Fill])) @
      [Restore])"

text \<open>
  The meaning of the transform calls of the canvas: each maps a point of the coordinate
  system it creates to the system before the call, so a list of calls maps a local point to
  the canvas by applying the last call first. Other operations leave the transform alone.
\<close>

fun applyTransform :: "canvas_op \<Rightarrow> real \<times> real \<Rightarrow> real \<times> real" where
  "applyTransform (Translate tx ty) (x, y) = (x + tx, y + ty)"
| "applyTransform (Rotate a) (x, y) = (x * cos a - y * sin a, x * sin a + y * cos a)"
| "applyTransform (Scale sx sy) (x, y) = (sx * x, sy * y)"
| "applyTransform _ (x, y) = (x, y)"

definition toWorld :: "canvas_op list \<Rightarrow> real \<times> real \<Rightarrow> real \<times> real" where
  "toWorld ops pt = foldr applyTransform ops pt"

text \<open>
  \<^verbatim>\<open>Math.atan2(y, x)\<close> and \<^verbatim>\<open>Math.hypot(x, y)\<close> on real numbers (signed zeros are
  outside the model).
\<close>

definition atan2 :: "real \<Rightarrow> real \<Rightarrow> real" where
  "atan2 y x =
     (if x > 0 then arctan (y / x)
      else if x < 0 \<and> y \<ge> 0 then arctan (y / x) + pi
      else if x < 0 \<and> y < 0 then arctan (y / x) - pi
      else if y > 0 then pi / 2
      else if y < 0 then - pi / 2
      else 0)"

definition hypot :: "real \<Rightarrow> real \<Rightarrow> real" where
  "hypot x y = sqrt (x * x + y * y)"

datatype InteractionMode =
  NONE | MOVE | ROTATE | RESIZE | CROP_PAN | CROP_TL | CROP_TR | CROP_BL | CROP_BR

text \<open>
  The snapshot taken at pointer-down: a copy of the item, with \<^verbatim>\<open>startRotation\<close> and
  \<^verbatim>\<open>startAngle\<close> added when a rotation starts.
\<close>

record InitialItemState =
  init_item :: CanvasItem
  init_startRotation :: "real option"
  init_startAngle :: "real option"

record EditorState =
  canvasItems :: "CanvasItem list"
  selectedItemId :: "string option"
  isCropping :: bool
  interactionMode :: InteractionMode
  dragStartPos :: "real \<times> real"
  initialItemState :: "InitialItemState option"

text \<open>
  The padding of the hit test: \<^verbatim>\<open>backgroundPadding || 0\<close> for every text item, with or
  without a background colour, zero otherwise.
\<close>

definition hitPad :: "CanvasItem \<Rightarrow> real" where
  "hitPad item =
     (if item_type item = ITEM_TEXT then orNum (item_backgroundPadding item) 0 else 0)"

definition hitTotalW :: "CanvasItem \<Rightarrow> real" where
  "hitTotalW item = (item_width item + hitPad item * 2) * item_scale item"

definition hitTotalH :: "CanvasItem \<Rightarrow> real" where
  "hitTotalH item = (item_height item + hitPad item * 2) * item_scale item"

definition hitCenter :: "CanvasItem \<Rightarrow> real \<times> real" where
  "hitCenter item = (item_x item + hitTotalW item / 2, item_y item + hitTotalH item / 2)"

text \<open>
  The pointer relative to the centre, rotated back by the item's angle
  (\<^verbatim>\<open>localDx\<close>, \<^verbatim>\<open>localDy\<close>), and the same measured from the top left corner of the
  box (\<^verbatim>\<open>localX\<close>, \<^verbatim>\<open>localY\<close>).
\<close>

definition hitLocalD :: "CanvasItem \<Rightarrow> real \<times> real \<Rightarrow> real \<times> real" where
  "hitLocalD item pos =
     (let dx = fst pos - fst (hitCenter item); dy = snd pos - snd (hitCenter item);
          angle = orNum (item_rotation item) 0
      in (dx * cos (- angle) - dy * sin (- angle), dx * sin (- angle) + dy * cos (- angle)))"

definition hitLocal :: "CanvasItem \<Rightarrow> real \<times> real \<Rightarrow> real \<times> real" where
  "hitLocal item pos =
     (fst (hitLocalD item pos) + hitTotalW item / 2, snd (hitLocalD item pos) + hitTotalH item / 2)"

text \<open>
  The handle tests of \<^verbatim>\<open>handleMouseDown\<close> on the item that is already selected, in the
  order of the source: rotation grip, then in crop mode the four corners and the body, else
  the resize corner. The result is the interaction that starts, if any.
\<close>

definition handleHit :: "bool \<Rightarrow> CanvasItem \<Rightarrow> real \<times> real \<Rightarrow> InteractionMode option" where
  "handleHit cropping item pos =
     (let totalW = hitTotalW item; totalH = hitTotalH item;
          halfW = totalW / 2;
          localX = fst (hitLocal item pos); localY = snd (hitLocal item pos);
          hSize = HANDLE_SIZE * 1.5; rotHandleDist = 25
      in if hypot (localX - halfW) (localY - (- rotHandleDist)) \<le> hSize then Some ROTATE
         else if cropping \<and> item_type item = ITEM_IMAGE then
           (if hypot (localX - 0) (localY - 0) \<le> hSize then Some CROP_TL
            else if hypot (localX - totalW) (localY - 0) \<le> hSize then Some CROP_TR
            else if hypot (localX - 0) (localY - totalH) \<le> hSize then Some CROP_BL
            else if hypot (localX - totalW) (localY - totalH) \<le> hSize then Some CROP_BR
            else if localX \<ge> 0 \<and> localX \<le> totalW \<and> localY \<ge> 0 \<and> localY \<le> totalH
            then Some CROP_PAN
            else None)
         else if hypot (localX - totalW) (localY - totalH) \<le> hSize then Some RESIZE
         else None)"

definition bodyHit :: "CanvasItem \<Rightarrow> real \<times> real \<Rightarrow> bool" where
  "bodyHit item pos =
     (\<bar>fst (hitLocalD item pos)\<bar> \<le> hitTotalW item / 2 \<and>
      \<bar>snd (hitLocalD item pos)\<bar> \<le> hitTotalH item / 2)"

definition snapshot :: "CanvasItem \<Rightarrow> InitialItemState" where
  "snapshot item = \<lparr>init_item = item, init_startRotation = None, init_startAngle = None\<rparr>"

definition rotateSnapshot :: "CanvasItem \<Rightarrow> real \<times> real \<Rightarrow> InitialItemState" where
  "rotateSnapshot item pos =
     \<lparr>init_item = item, init_startRotation = Some (orNum (item_rotation item) 0),
      init_startAngle =
        Some (atan2 (snd pos - snd (hitCenter item)) (fst pos - fst (hitCenter item)))\<rparr>"

text \<open>
  \<^verbatim>\<open>handleMouseDown\<close> at canvas position \<open>pos\<close>. A handle of the selected item wins;
  otherwise the topmost item whose body contains the pointer is selected, raised above all
  others and moved; otherwise the selection is cleared.
\<close>

definition handleMouseDown :: "EditorState \<Rightarrow> real \<times> real \<Rightarrow> EditorState" where
  "handleMouseDown s pos =
     (case (if truthyStr (selectedItemId s)
            then (case find (\<lambda>i. Some (item_id i) = selectedItemId s) (canvasItems s) of
                    None \<Rightarrow> None
                  | Some item \<Rightarrow>
                      (case handleHit (isCropping s) item pos of
                         None \<Rightarrow> None
                       | Some mode \<Rightarrow> Some (mode, item)))
            else None) of
        Some (mode, item) \<Rightarrow>
          s\<lparr>interactionMode := mode, dragStartPos := pos,
            initialItemState :=
              Some (if mode = ROTATE then rotateSnapshot item pos else snapshot item)\<rparr>
      | None \<Rightarrow>
          (case find (\<lambda>item. bodyHit item pos)
                  (sort_key (\<lambda>i. - item_zIndex i) (canvasItems s)) of
             Some item \<Rightarrow>
               s\<lparr>selectedItemId := Some (item_id item),
                 isCropping := (if selectedItemId s \<noteq> Some (item_id item) then False
                                else isCropping s),
                 interactionMode := MOVE, dragStartPos := pos,
                 initialItemState := Some (snapshot item),
                 canvasItems :=
                   (let maxZ = Max (set (map item_zIndex (canvasItems s)))
                    in map (\<lambda>i. if item_id i = item_id item then i\<lparr>item_zIndex := maxZ + 1\<rparr>
                                 else i) (canvasItems s))\<rparr>
           | None \<Rightarrow>
               s\<lparr>selectedItemId := None, isCropping := False, interactionMode := NONE\<rparr>))"

text \<open>
  The update \<^verbatim>\<open>handleMouseMove\<close> applies to the selected item, by interaction mode. A
  rotation whose snapshot lacks the start values would compute \<^verbatim>\<open>NaN\<close>; every read of
  \<^verbatim>\<open>rotation\<close> goes through \<^verbatim>\<open>|| 0\<close>, so that value is kept as an absent rotation.
\<close>

definition imgOffsetX :: "CanvasItem \<Rightarrow> real" where
  "imgOffsetX item = (case item_imgOffset item of None \<Rightarrow> 0 | Some (ox, oy) \<Rightarrow> ox)"

definition imgOffsetY :: "CanvasItem \<Rightarrow> real" where
  "imgOffsetY item = (case item_imgOffset item of None \<Rightarrow> 0 | Some (ox, oy) \<Rightarrow> oy)"

definition moveItem ::
  "InteractionMode \<Rightarrow> InitialItemState \<Rightarrow> real \<times> real \<Rightarrow> real \<Rightarrow> real \<Rightarrow> CanvasItem \<Rightarrow> CanvasItem" where
  "moveItem mode init pos dx dy item =
     (let i0 = init_item init in
      if mode = ROTATE then
        (let p = hitPad item;
             totalW = (item_width item + p * 2) * item_scale item;
             totalH = (item_height item + p * 2) * item_scale item;
             cx = item_x i0 + totalW / 2;
             cy = item_y i0 + totalH / 2;
             currentAngle = atan2 (snd pos - cy) (fst pos - cx)
         in item\<lparr>item_rotation :=
              (case (init_startRotation init, init_startAngle init) of
                 (Some startRotation, Some startAngle) \<Rightarrow>
                   Some (startRotation + (currentAngle - startAngle))
               | _ \<Rightarrow> None)\<rparr>)
      else if mode = MOVE then item\<lparr>item_x := item_x i0 + dx, item_y := item_y i0 + dy\<rparr>
      else if mode = RESIZE then
        (let angle = orNum (item_rotation item) 0;
             localDx = dx * cos (- angle) - dy * sin (- angle);
             newW = item_width i0 * item_scale i0 + localDx;
             newScale = max 0.1 (newW / item_width i0)
         in item\<lparr>item_scale := newScale\<rparr>)
      else if mode = CROP_BR then
        (let dW = dx / item_scale item; dH = dy / item_scale item
         in item\<lparr>item_width := max 50 (item_width i0 + dW),
                 item_height := max 50 (item_height i0 + dH),
                 item_imgOffset := Some (imgOffsetX i0 - dW / 2, imgOffsetY i0 - dH / 2)\<rparr>)
      else if mode = CROP_PAN then
        (let dOffsetX = dx / item_scale item; dOffsetY = dy / item_scale item
         in item\<lparr>item_imgOffset := Some (imgOffsetX i0 + dOffsetX, imgOffsetY i0 + dOffsetY)\<rparr>)
      else item)"

definition handleMouseMove :: "EditorState \<Rightarrow> real \<times> real \<Rightarrow> EditorState" where
  "handleMouseMove s pos =
     (case initialItemState s of
        None \<Rightarrow> s
      | Some init \<Rightarrow>
          if interactionMode s = NONE \<or> \<not> truthyStr (selectedItemId s) then s
          else
            (let dx = fst pos - fst (dragStartPos s); dy = snd pos - snd (dragStartPos s)
             in s\<lparr>canvasItems :=
                  map (\<lambda>item. if Some (item_id item) = selectedItemId s
                               then moveItem (interactionMode s) init pos dx dy item
                               else item) (canvasItems s)\<rparr>))"

section \<open>Timeline renderer: dragging an overlay (VideoPreview.handleMouseMove)\<close>







section \<open>Audio graph (VideoPreview.setupAudioGraph)\<close>

text \<open>
  A decoded buffer is kept as its duration in seconds, \<open>None\<close> for a track that is missing
  or failed to decode. An automation event is a call on a gain parameter with its value
  and its time. A scheduled source is the buffer played, its start time and the events on
  its own gain. The loop that lays the tracks end to end is a \<^verbatim>\<open>while\<close> loop; it is
  defined so that a run that never ends has the value \<open>None\<close>.
\<close>

datatype automation = SetValueAtTime real real | LinearRampToValueAtTime real real

record ScheduledSource =
  source_buffer :: nat
  source_start :: real
  source_gain :: "automation list"

record AudioGraph =
  graph_sources :: "ScheduledSource list"
  graph_ducking :: "automation list"
  graph_master :: "automation list"

definition fadeTimeOf :: "real \<Rightarrow> real" where
  "fadeTimeOf duration = min 0.5 (duration / 3)"

definition scheduleTrack :: "nat \<Rightarrow> real \<Rightarrow> real \<Rightarrow> ScheduledSource" where
  "scheduleTrack bufferIndex duration cursorTime =
     (let startTime = cursorTime;
          fadeTime = fadeTimeOf duration;
          trackEndTime = startTime + duration
      in \<lparr>source_buffer = bufferIndex, source_start = startTime,
          source_gain =
            (if startTime > 0
             then [SetValueAtTime 0 startTime, LinearRampToValueAtTime 1 (startTime + fadeTime)]
             else [SetValueAtTime 1 0]) @
            [SetValueAtTime 1 (trackEndTime - fadeTime), LinearRampToValueAtTime 0 trackEndTime]\<rparr>)"

partial_function (option) scheduleLoop ::
  "real option list \<Rightarrow> real \<Rightarrow> real \<Rightarrow> nat \<Rightarrow> ScheduledSource list \<Rightarrow> ScheduledSource list option" where
  "scheduleLoop buffers videoDuration cursorTime trackIndex scheduled =
     (if cursorTime < videoDuration then
        (case buffers ! (trackIndex mod length buffers) of
           None \<Rightarrow>
             if trackIndex + 1 > 100 then Some scheduled
             else scheduleLoop buffers videoDuration cursorTime (trackIndex + 1) scheduled
         | Some duration \<Rightarrow>
             if duration < 0.1 then
               (if trackIndex + 1 > 100 then Some scheduled
                else scheduleLoop buffers videoDuration cursorTime (trackIndex + 1) scheduled)
             else
               scheduleLoop buffers videoDuration
                 (cursorTime + (duration - fadeTimeOf duration)) (trackIndex + 1)
                 (scheduled @
                    [scheduleTrack (trackIndex mod length buffers) duration cursorTime]))
      else Some scheduled)"

text \<open>A track the loop skips: not decoded, or shorter than a tenth of a second.\<close>

definition unusable :: "real option \<Rightarrow> bool" where
  "unusable b = (case b of None \<Rightarrow> True | Some duration \<Rightarrow> duration < 0.1)"

text \<open>
  The bound used to show that the loop ends: fifteen times the time still to fill, rounded
  up, plus the attempts left before the cap of 100.
\<close>

definition loopMeasure :: "real \<Rightarrow> real \<Rightarrow> nat \<Rightarrow> nat" where
  "loopMeasure videoDuration cursorTime trackIndex =
     nat \<lceil>(videoDuration - cursorTime) * 15\<rceil> + (101 - trackIndex)"

text \<open>
  The ducking events, the master fade and the graph. \<open>ducks\<close> is the test for a slide whose
  own sound lowers the music. The connection of the video elements to the destination
  during export is not part of the value.
\<close>

definition slideSec :: "VideoSettings \<Rightarrow> UploadedMedia \<Rightarrow> real" where
  "slideSec settings m =
     (if media_type m = VIDEO then orNum (media_duration m) 5 else photoDuration settings)"

definition ducks :: "UploadedMedia \<Rightarrow> bool" where
  "ducks m = (media_type m = VIDEO \<and> truthy (media_enableOriginalAudio m) \<and> \<not> truthy (media_missing m))"

fun duckEvents :: "VideoSettings \<Rightarrow> real \<Rightarrow> UploadedMedia list \<Rightarrow> automation list" where
  "duckEvents settings currentTime [] = []"
| "duckEvents settings currentTime (m # ms) =
     (let d = slideSec settings m in
      (if ducks m then
         (let duckStart = max 0 currentTime; duckEnd = currentTime + d
          in [SetValueAtTime 1 duckStart, LinearRampToValueAtTime 0.2 (duckStart + 0.3),
              SetValueAtTime 0.2 (duckEnd - 0.3), LinearRampToValueAtTime 1 duckEnd])
       else []) @
      duckEvents settings (currentTime + d) ms)"

definition masterEvents :: "real \<Rightarrow> automation list" where
  "masterEvents videoDuration =
     (let fadeStart = max 0 (videoDuration - 2.0)
      in [SetValueAtTime 1 0, SetValueAtTime 1 fadeStart,
          LinearRampToValueAtTime 0 videoDuration])"

definition setupAudioGraph ::
  "real option list \<Rightarrow> VideoSettings \<Rightarrow> UploadedMedia list \<Rightarrow> AudioGraph option" where
  "setupAudioGraph buffers settings mediaList =
     (if length buffers > 0 then
        (let videoDuration = calculateTotalDuration settings mediaList / 1000 in
         case scheduleLoop buffers videoDuration 0 0 [] of
           None \<Rightarrow> None
         | Some scheduled \<Rightarrow>
             Some \<lparr>graph_sources = scheduled,
                   graph_ducking = SetValueAtTime 1 0 # duckEvents settings 0 mediaList,
                   graph_master = masterEvents videoDuration\<rparr>)
      else Some \<lparr>graph_sources = [], graph_ducking = [], graph_master = []\<rparr>)"

text \<open>
  The value of a gain parameter at time \<open>t\<close>, as the Web Audio API defines it for these
  two kinds of event: events take effect in order of time (in order of insertion at equal
  times); before the first event the gain has its default 1; after a
  \<^verbatim>\<open>setValueAtTime\<close> the value holds; up to a \<^verbatim>\<open>linearRampToValueAtTime\<close> the value
  moves linearly from the value and time of the event before it; after the last event the
  value holds. \<open>valueAfter v0 t0 es t\<close> reads the events \<open>es\<close> that follow an event of
  value \<open>v0\<close> at time \<open>t0\<close>.
\<close>

fun eventTime :: "automation \<Rightarrow> real" where
  "eventTime (SetValueAtTime v t) = t"
| "eventTime (LinearRampToValueAtTime v t) = t"

fun eventValue :: "automation \<Rightarrow> real" where
  "eventValue (SetValueAtTime v t) = v"
| "eventValue (LinearRampToValueAtTime v t) = v"

fun valueAfter :: "real \<Rightarrow> real \<Rightarrow> automation list \<Rightarrow> real \<Rightarrow> real" where
  "valueAfter v0 t0 [] t = v0"
| "valueAfter v0 t0 (e # es) t =
     (if t < eventTime e then
        (case e of
           SetValueAtTime v T \<Rightarrow> v0
         | LinearRampToValueAtTime v T \<Rightarrow> v0 + (v - v0) * ((t - t0) / (T - t0)))
      else valueAfter (eventValue e) (eventTime e) es t)"

definition gainAt :: "automation list \<Rightarrow> real \<Rightarrow> real" where
  "gainAt events t = valueAfter 1 0 (sort_key eventTime events) t"

section \<open>Scenario data\<close>


definition idleUi :: PreviewUi where
  "idleUi = \<lparr>ui_appState = EDITING, ui_isPlaying = False, ui_selectedMediaId = None,
     ui_selectedOverlayId = None\<rparr>"




definition recSticker :: CanvasItem where
  "recSticker =
     \<lparr>item_id = ''effect-1'', item_type = ITEM_EFFECT, item_x = 380, item_y = 260,
      item_width = 200, item_height = 200, item_scale = 1, item_rotation = Some 0,
      item_zIndex = 11, item_sourceUrl = None, item_imgOffset = None, item_imgZoom = None,
      item_imgBaseScale = None, item_isSticker = None, item_text = None,
      item_fontFamily = None, item_fontSize = None, item_color = None,
      item_strokeColor = None, item_strokeWidth = None, item_backgroundColor = None,
      item_backgroundOpacity = None, item_backgroundPadding = None,
      item_backgroundRadius = None, item_animationType = Some REC_FRAME,
      item_imgElement = None\<rparr>"

text \<open>A playlist with a missing track, an empty track and a track of 3 s.\<close>

definition shortTracks :: "real option list" where
  "shortTracks = [None, Some 0, Some 3]"

text \<open>
  The ducking scenario: photos shown for 5 s each, and a video clip of 5 s that keeps its
  own sound; \<open>singleDuck\<close> is the list of ducking events for one such clip from 5 s to 10 s.
\<close>

definition settings5 :: VideoSettings where
  "settings5 = \<lparr>photoDuration = 5, transitionDuration = 1,
     resolution_width = 960, resolution_height = 720\<rparr>"

definition clip :: UploadedMedia where
  "clip = (photo ''clip'')\<lparr>media_type := VIDEO, media_duration := Some 5,
     media_enableOriginalAudio := Some True\<rparr>"

definition singleDuck :: "automation list" where
  "singleDuck =
     [SetValueAtTime 1 0, SetValueAtTime 1 5, LinearRampToValueAtTime 0.2 5.3,
      SetValueAtTime 0.2 9.7, LinearRampToValueAtTime 1 10]"

text \<open>
  A title text of 200 by 72 at (100, 100) whose background box was switched on and off
  again in the editor panel: the toggle leaves \<^verbatim>\<open>backgroundColor\<close> undefined and
  \<^verbatim>\<open>backgroundPadding\<close> at 10. The second value is the editor with that item selected.
\<close>

definition paddedText :: CanvasItem where
  "paddedText = recSticker\<lparr>item_id := ''title'', item_type := ITEM_TEXT, item_x := 100,
     item_y := 100, item_width := 200, item_height := 72, item_text := Some ''Hi'',
     item_backgroundColor := None, item_backgroundPadding := Some 10,
     item_animationType := Some ANIM_NONE\<rparr>"

definition paddedTextSelected :: EditorState where
  "paddedTextSelected =
     \<lparr>canvasItems = [paddedText], selectedItemId = Some ''title'', isCropping = False,
      interactionMode = NONE, dragStartPos = (0, 0), initialItemState = None\<rparr>"



section \<open>Timeline lookup on the three-slide scenario\<close>

lemma threeSlides_durations:
  "map (slideMs settings3) threeSlides = [3000, 3000, 3000]"
  by (simp add: threeSlides_def slideMs_def settings3_def photo_def)

lemma locate_2500:
  "locateSlide settings3 threeSlides 2500 =
     \<lparr>slideIndex = 0, slideDuration = 3000, currentSlideStart = 0\<rparr>"
  by (simp add: locateSlide_def threeSlides_durations)

lemma locate_3500:
  "locateSlide settings3 threeSlides 3500 =
     \<lparr>slideIndex = 1, slideDuration = 3000, currentSlideStart = 3000\<rparr>"
  by (simp add: locateSlide_def threeSlides_durations)

text \<open>
  Claim C2. With slide durations 3000, 3000, 3000 ms and a transition of 1000 ms, the clock
  2500 is in slide 0 at local time 2500, where the transition window starts at 2000 and the
  frame is drawn by the transition branch; the clock 3500 is in slide 1 at local time 500,
  before the window, and the frame is drawn by the normal branch. The application state is
  arbitrary (the export state only bypasses transitions on the last slide).
\<close>

theorem timeline_lookup_scenario:
  "map (slideMs settings3) threeSlides = [3000, 3000, 3000] \<and>
   transitionDuration settings3 * 1000 = 1000 \<and>
   slideIndex (locateSlide settings3 threeSlides 2500) = 0 \<and>
   timeInSlide (locateSlide settings3 threeSlides 2500) 2500 = 2500 \<and>
   transitionStart settings3 (locateSlide settings3 threeSlides 2500) = 2000 \<and>
   inTransition appState settings3 threeSlides 2500 \<and>
   slideIndex (locateSlide settings3 threeSlides 3500) = 1 \<and>
   timeInSlide (locateSlide settings3 threeSlides 3500) 3500 = 500 \<and>
   transitionStart settings3 (locateSlide settings3 threeSlides 3500) = 2000 \<and>
   \<not> inTransition appState settings3 threeSlides 3500"
proof -
  have len: "length threeSlides = 3"
    by (simp add: threeSlides_def)
  have td: "transitionDuration settings3 * 1000 = 1000"
    by (simp add: settings3_def)
  show ?thesis
    unfolding inTransition_def Let_def locate_2500 locate_3500 len
    by (simp add: threeSlides_durations td timeInSlide_def transitionStart_def
        effectiveTransitionDuration_def)
qed

section \<open>Transition dispatch\<close>








section \<open>Missing slides\<close>



lemma renderMedia_unflagged:
  assumes "media_collageData md = None" and "\<not> truthy (media_missing md)"
  shows "renderMedia env ui current W H tInSlide rnd k None alpha scale offsetX offsetY (Some md) =
           ([], k)"
  using assms by (simp add: renderMedia_def)











section \<open>The two copies of the decoration code\<close>

text \<open>
  The two \<^verbatim>\<open>switch\<close> statements are the same, and so are the two transforms for an item
  of type \<^verbatim>\<open>effect\<close>. The copies differ in what they set before the switch.
\<close>

lemma effect_switch_copies_agree:
  "collageEffectSwitch rnd k a w h t = previewEffectSwitch rnd k a w h t"
  by (cases a) simp_all

lemma itemTransform_effect:
  assumes "item_type item = ITEM_EFFECT"
  shows "itemTransform item =
     [Translate (item_x item + item_width item * item_scale item / 2)
        (item_y item + item_height item * item_scale item / 2),
      Rotate (orNum (item_rotation item) 0),
      Scale (item_scale item) (item_scale item),
      Translate (- item_width item / 2) (- item_height item / 2)]"
  using assms by (simp add: itemTransform_def drawPad_def Let_def)

text \<open>
  For a decoration that is not the selected overlay, \<^verbatim>\<open>drawEffect\<close> issues the
  operations of the editor's copy with two more assignments after the transform:
  \<^verbatim>\<open>textAlign = 'center'\<close> and \<^verbatim>\<open>textBaseline = 'middle'\<close>.
\<close>

lemma drawEffect_extra_text_state:
  assumes "item_type item = ITEM_EFFECT" and "item_animationType item = Some a"
      and "\<not> (ui_selectedMediaId ui = Some (media_id current) \<and>
             ui_selectedOverlayId ui = Some (item_id item) \<and>
             \<not> ui_isPlaying ui \<and> ui_appState ui \<noteq> RENDERING)"
  shows "\<exists>pre post.
           collageDrawEffect rnd k item now = pre @ post \<and>
           drawEffect ui current rnd k item (collageTime now) =
             pre @ [Set (TextAlign ''center''), Set (TextBaseline ''middle'')] @ post"
proof -
  let ?pre = "[Save] @ itemTransform item"
  let ?post = "[Set (StrokeStyle ''#ffffff''), Set (FillStyle ''#ffffff''), Set (LineWidth 3),
       Set (LineCap ''round''), Set (LineJoin ''round''),
       Set (ShadowColor ''rgba(0,0,0,0.2)''), Set (ShadowBlur 2)] @
      collageEffectSwitch rnd k a (item_width item) (item_height item) (collageTime now) @
      [Restore]"
  have 1: "collageDrawEffect rnd k item now = ?pre @ ?post"
    using assms(2) by (simp add: collageDrawEffect_def Let_def)
  have 2: "drawEffect ui current rnd k item (collageTime now) =
             ?pre @ [Set (TextAlign ''center''), Set (TextBaseline ''middle'')] @ ?post"
    using assms by (simp add: drawEffect_def Let_def itemTransform_effect effect_switch_copies_agree)
  show ?thesis using 1 2 by blast
qed

text \<open>
  Claim C7 fails on the code. For the recording-frame sticker at the same time value, the
  renderer's copy sets \<^verbatim>\<open>textAlign\<close> to \<^verbatim>\<open>center\<close> before it draws the label
  \<^verbatim>\<open>REC\<close> at (20, 30) and the editor's copy never does, so the two sequences of
  operations differ and the label is anchored differently in the two views.
\<close>

theorem decoration_copies_differ:
  "Set (TextAlign ''center'') \<in>
     set (drawEffect idleUi (photo ''a'') rnd 0 recSticker (collageTime 250)) \<and>
   Set (TextAlign ''center'') \<notin> set (collageDrawEffect rnd 0 recSticker 250) \<and>
   FillText (Lit ''REC'') 20 30 \<in> set (collageDrawEffect rnd 0 recSticker 250) \<and>
   FillText (Lit ''REC'') 20 30 \<in>
     set (drawEffect idleUi (photo ''a'') rnd 0 recSticker (collageTime 250)) \<and>
   collageDrawEffect rnd 0 recSticker 250 \<noteq>
     drawEffect idleUi (photo ''a'') rnd 0 recSticker (collageTime 250)"
proof -
  have a: "Set (TextAlign ''center'') \<in>
             set (drawEffect idleUi (photo ''a'') rnd 0 recSticker (collageTime 250))"
    by (simp add: drawEffect_def recSticker_def idleUi_def Let_def)
  have b: "Set (TextAlign ''center'') \<notin> set (collageDrawEffect rnd 0 recSticker 250)"
    by (simp add: collageDrawEffect_def recSticker_def itemTransform_def drawPad_def Let_def)
  have c: "FillText (Lit ''REC'') 20 30 \<in> set (collageDrawEffect rnd 0 recSticker 250)"
    by (simp add: collageDrawEffect_def recSticker_def itemTransform_def drawPad_def Let_def)
  have d: "FillText (Lit ''REC'') 20 30 \<in>
             set (drawEffect idleUi (photo ''a'') rnd 0 recSticker (collageTime 250))"
    by (simp add: drawEffect_def recSticker_def idleUi_def Let_def)
  from a b have "collageDrawEffect rnd 0 recSticker 250 \<noteq>
      drawEffect idleUi (photo ''a'') rnd 0 recSticker (collageTime 250)"
    by metis
  with a b c d show ?thesis by blast
qed

section \<open>The clock of the decorations\<close>














section \<open>Termination of the track scheduling loop\<close>

lemma advance_positive:
  assumes "\<not> duration < (0.1::real)"
  shows "1 / 15 \<le> duration - fadeTimeOf duration"
  using assms by (simp add: fadeTimeOf_def min_def)

lemma measure_usable:
  assumes "cursorTime < videoDuration" and "\<not> duration < (0.1::real)"
  shows "loopMeasure videoDuration (cursorTime + (duration - fadeTimeOf duration)) (trackIndex + 1)
           < loopMeasure videoDuration cursorTime trackIndex"
proof -
  let ?a = "duration - fadeTimeOf duration"
  have a: "1 / 15 \<le> ?a" using advance_positive [OF assms(2)] .
  have "(videoDuration - (cursorTime + ?a)) * 15 \<le> (videoDuration - cursorTime) * 15 - 1"
    using a by (simp add: algebra_simps)
  then have "\<lceil>(videoDuration - (cursorTime + ?a)) * 15\<rceil> \<le> \<lceil>(videoDuration - cursorTime) * 15 - 1\<rceil>"
    by (rule ceiling_mono)
  also have "\<dots> = \<lceil>(videoDuration - cursorTime) * 15\<rceil> - 1" by simp
  finally have le: "\<lceil>(videoDuration - (cursorTime + ?a)) * 15\<rceil> \<le> \<lceil>(videoDuration - cursorTime) * 15\<rceil> - 1" .
  have pos: "0 < \<lceil>(videoDuration - cursorTime) * 15\<rceil>" using assms(1) by simp
  from le pos have "nat \<lceil>(videoDuration - (cursorTime + ?a)) * 15\<rceil> < nat \<lceil>(videoDuration - cursorTime) * 15\<rceil>"
    by linarith
  then show ?thesis unfolding loopMeasure_def by linarith
qed

lemma measure_unusable:
  assumes "\<not> trackIndex + 1 > 100"
  shows "loopMeasure videoDuration cursorTime (trackIndex + 1)
           < loopMeasure videoDuration cursorTime trackIndex"
  using assms unfolding loopMeasure_def by linarith

lemma scheduleLoop_done:
  assumes "\<not> cursorTime < videoDuration"
  shows "scheduleLoop buffers videoDuration cursorTime trackIndex scheduled = Some scheduled"
  using assms by (subst scheduleLoop.simps) simp

lemma scheduleLoop_usable:
  assumes "cursorTime < videoDuration"
      and "buffers ! (trackIndex mod length buffers) = Some duration" and "\<not> duration < 0.1"
  shows "scheduleLoop buffers videoDuration cursorTime trackIndex scheduled =
           scheduleLoop buffers videoDuration (cursorTime + (duration - fadeTimeOf duration))
             (trackIndex + 1)
             (scheduled @ [scheduleTrack (trackIndex mod length buffers) duration cursorTime])"
  using assms by (subst scheduleLoop.simps) simp

lemma scheduleLoop_skip:
  assumes "cursorTime < videoDuration"
      and "unusable (buffers ! (trackIndex mod length buffers))" and "\<not> trackIndex + 1 > 100"
  shows "scheduleLoop buffers videoDuration cursorTime trackIndex scheduled =
           scheduleLoop buffers videoDuration cursorTime (trackIndex + 1) scheduled"
  using assms by (subst scheduleLoop.simps) (simp add: unusable_def split: option.splits)

lemma scheduleLoop_capped:
  assumes "cursorTime < videoDuration"
      and "unusable (buffers ! (trackIndex mod length buffers))" and "trackIndex + 1 > 100"
  shows "scheduleLoop buffers videoDuration cursorTime trackIndex scheduled = Some scheduled"
  using assms by (subst scheduleLoop.simps) (simp add: unusable_def split: option.splits)

lemma schedule_loop_total:
  "\<exists>r. scheduleLoop buffers videoDuration cursorTime trackIndex scheduled = Some r"
proof (induction "loopMeasure videoDuration cursorTime trackIndex"
    arbitrary: cursorTime trackIndex scheduled rule: less_induct)
  case less
  show ?case
  proof (cases "cursorTime < videoDuration")
    case False
    then show ?thesis by (simp add: scheduleLoop_done)
  next
    case running: True
    show ?thesis
    proof (cases "unusable (buffers ! (trackIndex mod length buffers))")
      case skip: True
      show ?thesis
      proof (cases "trackIndex + 1 > 100")
        case True
        then show ?thesis using running skip by (simp add: scheduleLoop_capped)
      next
        case False
        from less [OF measure_unusable [OF False], of scheduled] obtain r where
          "scheduleLoop buffers videoDuration cursorTime (trackIndex + 1) scheduled = Some r" ..
        then show ?thesis using scheduleLoop_skip [OF running skip False] by simp
      qed
    next
      case False
      then obtain duration where
        d: "buffers ! (trackIndex mod length buffers) = Some duration" "\<not> duration < 0.1"
        by (auto simp: unusable_def split: option.splits)
      from less [OF measure_usable [OF running d(2)],
          of "scheduled @ [scheduleTrack (trackIndex mod length buffers) duration cursorTime]"]
      obtain r where
        "scheduleLoop buffers videoDuration (cursorTime + (duration - fadeTimeOf duration))
           (trackIndex + 1)
           (scheduled @ [scheduleTrack (trackIndex mod length buffers) duration cursorTime]) = Some r" ..
      then show ?thesis using scheduleLoop_usable [OF running d] by simp
    qed
  qed
qed

lemma setupAudioGraph_returns:
  "\<exists>g. setupAudioGraph buffers settings mediaList = Some g"
proof -
  obtain r where "scheduleLoop buffers (calculateTotalDuration settings mediaList / 1000) 0 0 [] = Some r"
    using schedule_loop_total by blast
  then show ?thesis by (simp add: setupAudioGraph_def Let_def)
qed

text \<open>
  Claim C6. For every list of buffers, every total duration and every state of the loop,
  the scheduling loop returns, and so does \<^verbatim>\<open>setupAudioGraph\<close>. A usable track (decoded,
  at least 0.1 s long) moves the cursor forward by its duration minus the crossfade
  \<open>min 0.5 (duration / 3)\<close>, which is positive; an unusable track only advances the track
  index, and the loop breaks once the index passes 100.
\<close>

theorem schedule_terminates:
  "(\<exists>r. scheduleLoop buffers videoDuration cursorTime trackIndex scheduled = Some r) \<and>
   (\<exists>g. setupAudioGraph buffers settings mediaList = Some g) \<and>
   (cursorTime < videoDuration \<and> buffers ! (trackIndex mod length buffers) = Some duration \<and>
    \<not> duration < 0.1 \<longrightarrow>
      0 < duration - min 0.5 (duration / 3) \<and>
      scheduleLoop buffers videoDuration cursorTime trackIndex scheduled =
        scheduleLoop buffers videoDuration (cursorTime + (duration - min 0.5 (duration / 3)))
          (trackIndex + 1)
          (scheduled @ [scheduleTrack (trackIndex mod length buffers) duration cursorTime])) \<and>
   (cursorTime < videoDuration \<and> unusable (buffers ! (trackIndex mod length buffers)) \<longrightarrow>
      (if trackIndex + 1 > 100
       then scheduleLoop buffers videoDuration cursorTime trackIndex scheduled = Some scheduled
       else scheduleLoop buffers videoDuration cursorTime trackIndex scheduled =
              scheduleLoop buffers videoDuration cursorTime (trackIndex + 1) scheduled))"
proof -
  have pos: "0 < duration - min 0.5 (duration / 3)" if "\<not> duration < 0.1"
    using advance_positive [OF that] by (simp add: fadeTimeOf_def)
  show ?thesis
    using schedule_loop_total [of buffers videoDuration cursorTime trackIndex scheduled]
      setupAudioGraph_returns [of buffers settings mediaList] pos
      scheduleLoop_usable [of cursorTime videoDuration buffers trackIndex duration scheduled]
      scheduleLoop_skip [of cursorTime videoDuration buffers trackIndex scheduled]
      scheduleLoop_capped [of cursorTime videoDuration buffers trackIndex scheduled]
    by (auto simp: fadeTimeOf_def)
qed

text \<open>
  The theorem on the playlist with a missing, an empty and a 3 s track, for a video of 4 s:
  the 3 s track moves the cursor by 2.5 s, the missing track is skipped, and the loop
  returns.
\<close>

theorem schedule_terminates_witness:
  "(0::real) < 4 \<and> shortTracks ! (2 mod length shortTracks) = Some 3 \<and> \<not> (3::real) < 0.1 \<and>
   (0::real) < 3 - min 0.5 (3 / 3) \<and>
   scheduleLoop shortTracks 4 0 2 [] = scheduleLoop shortTracks 4 (5 / 2) 3 [scheduleTrack 2 3 0] \<and>
   unusable (shortTracks ! (3 mod length shortTracks)) \<and>
   scheduleLoop shortTracks 4 0 3 [] = scheduleLoop shortTracks 4 0 4 [] \<and>
   (\<exists>r. scheduleLoop shortTracks 4 0 0 [] = Some r)"
proof -
  have b2: "shortTracks ! (2 mod length shortTracks) = Some 3" "2 mod length shortTracks = 2"
    and u3: "unusable (shortTracks ! (3 mod length shortTracks))"
    by (simp_all add: shortTracks_def unusable_def)
  from schedule_terminates [of shortTracks 4 0 2 "[]" settings3 threeSlides 3] b2
  have a: "(0::real) < 3 - min 0.5 (3 / 3) \<and>
    scheduleLoop shortTracks 4 0 2 [] = scheduleLoop shortTracks 4 (5 / 2) 3 [scheduleTrack 2 3 0]"
    by simp
  from schedule_terminates [of shortTracks 4 0 3 "[]" settings3 threeSlides 3] u3
  have b: "scheduleLoop shortTracks 4 0 3 [] = scheduleLoop shortTracks 4 0 4 []"
    by simp
  from schedule_terminates [of shortTracks 4 0 0 "[]" settings3 threeSlides 3]
  have c: "\<exists>r. scheduleLoop shortTracks 4 0 0 [] = Some r" by blast
  show ?thesis using a b c b2 u3 by simp
qed


section \<open>Ducking under a clip's own sound\<close>

lemma duckEvents_quiet:
  assumes "\<forall>m \<in> set ms. \<not> ducks m"
  shows "duckEvents settings t ms = []"
  using assms by (induction ms arbitrary: t) (simp_all add: Let_def)

lemma duckEvents_append:
  "duckEvents settings t (xs @ ys) =
     duckEvents settings t xs @ duckEvents settings (t + sum_list (map (slideSec settings) xs)) ys"
  by (induction xs arbitrary: t) (simp_all add: Let_def add.assoc)

lemma duck_single:
  assumes "\<forall>m \<in> set before. \<not> ducks m" and "\<forall>m \<in> set after. \<not> ducks m"
      and "ducks v" and "sum_list (map (slideSec settings) before) = 5"
      and "slideSec settings v = 5"
  shows "SetValueAtTime 1 0 # duckEvents settings 0 (before @ v # after) = singleDuck"
  using assms
  by (simp add: duckEvents_append duckEvents_quiet Let_def singleDuck_def)

lemma singleDuck_sorted: "sort_key eventTime singleDuck = singleDuck"
  by (simp add: singleDuck_def)

lemma singleDuck_hold:
  assumes "5.3 \<le> t" and "t \<le> 9.7"
  shows "gainAt singleDuck t = 0.2"
  unfolding gainAt_def singleDuck_sorted using assms by (simp add: singleDuck_def)

lemma singleDuck_down:
  assumes "5 \<le> t" and "t \<le> 5.3"
  shows "gainAt singleDuck t = 1 + (0.2 - 1) * ((t - 5) / 0.3)"
  unfolding gainAt_def singleDuck_sorted using assms by (simp add: singleDuck_def)

lemma singleDuck_up:
  assumes "9.7 \<le> t" and "t \<le> 10"
  shows "gainAt singleDuck t = 0.2 + (1 - 0.2) * ((t - 9.7) / 0.3)"
  unfolding gainAt_def singleDuck_sorted using assms by (simp add: singleDuck_def)

lemma scheduleLoop_returns:
  "\<exists>r. scheduleLoop buffers videoDuration 0 0 [] = Some r"
  using schedule_loop_total by blast

text \<open>
  Claim C5. Take a timeline in which one video slide with its original audio enabled (and
  not missing) runs from 5 s to 10 s and no other slide ducks, with background music
  loaded. Then the graph is built, the events on the ducking gain are
  \<^verbatim>\<open>setValueAtTime(1, 0)\<close>, \<^verbatim>\<open>setValueAtTime(1, 5)\<close>,
  \<^verbatim>\<open>linearRampToValueAtTime(0.2, 5.3)\<close>, \<^verbatim>\<open>setValueAtTime(0.2, 9.7)\<close> and
  \<^verbatim>\<open>linearRampToValueAtTime(1, 10)\<close>, and the gain they define is 0.2 on \<open>[5.3, 9.7]\<close>,
  falls linearly from 1 to 0.2 on \<open>[5, 5.3]\<close> and rises linearly from 0.2 to 1 on
  \<open>[9.7, 10]\<close>.
\<close>

theorem ducking_envelope:
  assumes "buffers \<noteq> []"
      and "\<forall>m \<in> set before. \<not> ducks m" and "\<forall>m \<in> set after. \<not> ducks m"
      and "ducks v" and "sum_list (map (slideSec settings) before) = 5"
      and "slideSec settings v = 5"
  shows "\<exists>g. setupAudioGraph buffers settings (before @ v # after) = Some g \<and>
           graph_ducking g =
             [SetValueAtTime 1 0, SetValueAtTime 1 5, LinearRampToValueAtTime 0.2 5.3,
              SetValueAtTime 0.2 9.7, LinearRampToValueAtTime 1 10] \<and>
           (\<forall>t. 5.3 \<le> t \<and> t \<le> 9.7 \<longrightarrow> gainAt (graph_ducking g) t = 0.2) \<and>
           (\<forall>t. 5 \<le> t \<and> t \<le> 5.3 \<longrightarrow>
              gainAt (graph_ducking g) t = 1 + (0.2 - 1) * ((t - 5) / 0.3)) \<and>
           (\<forall>t. 9.7 \<le> t \<and> t \<le> 10 \<longrightarrow>
              gainAt (graph_ducking g) t = 0.2 + (1 - 0.2) * ((t - 9.7) / 0.3))"
proof -
  let ?ml = "before @ v # after"
  obtain r where r: "scheduleLoop buffers (calculateTotalDuration settings ?ml / 1000) 0 0 [] = Some r"
    using scheduleLoop_returns by blast
  let ?g = "\<lparr>graph_sources = r,
             graph_ducking = SetValueAtTime 1 0 # duckEvents settings 0 ?ml,
             graph_master = masterEvents (calculateTotalDuration settings ?ml / 1000)\<rparr>"
  have g: "setupAudioGraph buffers settings ?ml = Some ?g"
    using assms(1) r by (simp add: setupAudioGraph_def Let_def)
  have d: "graph_ducking ?g = singleDuck"
    using duck_single [OF assms(2-6)] by simp
  show ?thesis
    using g d singleDuck_hold singleDuck_down singleDuck_up
    by (auto simp: singleDuck_def)
qed

text \<open>
  The theorem on a 5 s photo followed by the 5 s clip, with one music track of 30 s: the
  gain is 0.2 at 6 s, 0.6 halfway down the first ramp, and 1 at 10 s.
\<close>

theorem ducking_envelope_witness:
  "[Some (30::real)] \<noteq> [] \<and> ducks clip \<and> slideSec settings5 clip = 5 \<and>
   sum_list (map (slideSec settings5) [photo ''intro'']) = 5 \<and>
   (\<exists>g. setupAudioGraph [Some 30] settings5 [photo ''intro'', clip] = Some g \<and>
        gainAt (graph_ducking g) 6 = 0.2 \<and>
        gainAt (graph_ducking g) (5 + 15 / 100) = 0.6 \<and>
        gainAt (graph_ducking g) 10 = 1)"
proof -
  have h: "[Some (30::real)] \<noteq> []" "\<forall>m \<in> set [photo ''intro'']. \<not> ducks m"
    "\<forall>m \<in> set []. \<not> ducks m" "ducks clip"
    "sum_list (map (slideSec settings5) [photo ''intro'']) = 5" "slideSec settings5 clip = 5"
    by (simp_all add: ducks_def photo_def clip_def slideSec_def settings5_def truthy_def orNum_def)
  from ducking_envelope [OF h] obtain g where
    g: "setupAudioGraph [Some 30] settings5 ([photo ''intro''] @ clip # []) = Some g"
     and hold: "\<forall>t. 5.3 \<le> t \<and> t \<le> 9.7 \<longrightarrow> gainAt (graph_ducking g) t = 0.2"
     and down: "\<forall>t. 5 \<le> t \<and> t \<le> 5.3 \<longrightarrow>
              gainAt (graph_ducking g) t = 1 + (0.2 - 1) * ((t - 5) / 0.3)"
     and up: "\<forall>t. 9.7 \<le> t \<and> t \<le> 10 \<longrightarrow>
              gainAt (graph_ducking g) t = 0.2 + (1 - 0.2) * ((t - 9.7) / 0.3)"
    by blast
  have 1: "gainAt (graph_ducking g) 6 = 0.2" using hold [rule_format, of 6] by simp
  have 2: "gainAt (graph_ducking g) (5 + 15 / 100) = 0.6"
    using down [rule_format, of "5 + 15 / 100"] by simp
  have 3: "gainAt (graph_ducking g) 10 = 1" using up [rule_format, of 10] by simp
  show ?thesis using h g 1 2 3 by auto
qed


section \<open>Forward transform and hit test\<close>

lemma hypot_exceeds:
  assumes "h * h < x * x + y * y" and "0 \<le> h"
  shows "\<not> hypot x y \<le> h"
proof
  assume "hypot x y \<le> h"
  then have "sqrt (x * x + y * y) \<le> h" by (simp add: hypot_def)
  then have "x * x + y * y \<le> h\<^sup>2" by (rule sqrt_le_D)
  then show False using assms(1) by (simp add: power2_eq_square)
qed

lemma rotate_back:
  "(u * cos a - v * sin a) * cos a + (u * sin a + v * cos a) * sin a = (u::real)"
  "(u * sin a + v * cos a) * cos a - (u * cos a - v * sin a) * sin a = (v::real)"
proof -
  have c: "cos a * cos a + sin a * sin a = 1"
    using sin_cos_squared_add3 [of a] by simp
  have k: "w * (cos a * cos a) + w * (sin a * sin a) = w" for w :: real
    using c by (metis distrib_left mult.right_neutral)
  show "(u * cos a - v * sin a) * cos a + (u * sin a + v * cos a) * sin a = u"
    using k [of u] by (simp add: algebra_simps)
  show "(u * sin a + v * cos a) * cos a - (u * cos a - v * sin a) * sin a = v"
    using k [of v] by (simp add: algebra_simps)
qed

lemma toWorld_itemTransform:
  assumes "0 \<le> drawPad item"
  shows "toWorld (itemTransform item) (qx, qy) =
     (let p = drawPad item; s = item_scale item; a = orNum (item_rotation item) 0;
          halfW = (item_width item + p * 2) / 2; halfH = (item_height item + p * 2) / 2;
          u = s * (qx + p - halfW); v = s * (qy + p - halfH)
      in (u * cos a - v * sin a + (item_x item + halfW * s),
          u * sin a + v * cos a + (item_y item + halfH * s)))"
  using assms by (auto simp: toWorld_def itemTransform_def Let_def algebra_simps)

lemma hit_inverts_draw:
  assumes "drawPad item = hitPad item" and "0 \<le> drawPad item"
  shows "hitLocal item (toWorld (itemTransform item) (qx, qy)) =
           (item_scale item * (qx + drawPad item), item_scale item * (qy + drawPad item))"
proof -
  let ?p = "drawPad item" and ?s = "item_scale item" and ?a = "orNum (item_rotation item) 0"
  let ?halfW = "(item_width item + ?p * 2) / 2" and ?halfH = "(item_height item + ?p * 2) / 2"
  let ?u = "?s * (qx + ?p - ?halfW)" and ?v = "?s * (qy + ?p - ?halfH)"
  have w: "toWorld (itemTransform item) (qx, qy) =
      (?u * cos ?a - ?v * sin ?a + (item_x item + ?halfW * ?s),
       ?u * sin ?a + ?v * cos ?a + (item_y item + ?halfH * ?s))"
    using toWorld_itemTransform [OF assms(2), of qx qy] by (simp add: Let_def)
  have c: "hitCenter item = (item_x item + ?halfW * ?s, item_y item + ?halfH * ?s)"
    using assms(1) by (simp add: hitCenter_def hitTotalW_def hitTotalH_def)
  have d: "hitLocalD item (toWorld (itemTransform item) (qx, qy)) = (?u, ?v)"
    unfolding w hitLocalD_def c Let_def by (simp add: rotate_back)
  show ?thesis
    unfolding hitLocal_def d using assms(1)
    by (simp add: hitTotalW_def hitTotalH_def algebra_simps)
qed

text \<open>
  Where the two paddings agree, the hit test undoes the forward transform: a point of the
  item's content box, drawn on the canvas and read back by the hit test, is the same point
  measured from the corner of the padded box, in canvas units (scaled by the item's scale).
  The rotation signs agree for every item.
\<close>

lemma paddedText_local: "hitLocal paddedText (300, 172) = (200, 72)"
  by (simp add: hitLocal_def hitLocalD_def hitCenter_def hitTotalW_def hitTotalH_def hitPad_def
      paddedText_def recSticker_def orNum_def Let_def)

lemma paddedText_handle: "handleHit False paddedText (300, 172) = None"
proof -
  have 1: "\<not> hypot 90 97 \<le> 18" by (rule hypot_exceeds) simp_all
  have 2: "\<not> hypot (- 20) (- 20) \<le> 18" by (rule hypot_exceeds) simp_all
  have w: "hitTotalW paddedText = 220" "hitTotalH paddedText = 92"
    by (simp_all add: hitTotalW_def hitTotalH_def hitPad_def paddedText_def recSticker_def orNum_def)
  show ?thesis
    unfolding handleHit_def Let_def paddedText_local w
    using 1 2 by (simp add: HANDLE_SIZE_def)
qed

text \<open>
  Claim C1 fails on the code: the two paddings differ for a text item without a background
  colour whose padding is set. For the title above, drawing uses padding 0 and the hit
  test padding 10. The resize handle is drawn at the content corner (200, 72), which is the
  canvas point (300, 172); the hit test reads that point as (200, 72) in a box of
  220 by 92, finds no handle there, and the click on the drawn handle starts a move.
\<close>

theorem hit_test_padding_mismatch:
  "drawPad paddedText = 0 \<and> hitPad paddedText = 10 \<and>
   Path (Arc 200 72 12 0 (pi * 2)) \<in> set (selectionOps False paddedText) \<and>
   toWorld (selectionTransform paddedText) (200, 72) = (300, 172) \<and>
   toWorld (itemTransform paddedText) (200, 72) = (300, 172) \<and>
   hitLocal paddedText (300, 172) = (200, 72) \<and>
   (hitTotalW paddedText, hitTotalH paddedText) = (220, 92) \<and>
   handleHit False paddedText (300, 172) = None \<and>
   interactionMode (handleMouseDown paddedTextSelected (300, 172)) = MOVE"
proof -
  have pads: "drawPad paddedText = 0" "hitPad paddedText = 10"
    by (simp_all add: drawPad_def hitPad_def paddedText_def recSticker_def orNum_def truthyStr_def)
  have arc: "Path (Arc 200 72 12 0 (pi * 2)) \<in> set (selectionOps False paddedText)"
    unfolding selectionOps_def Let_def pads
    by (simp add: paddedText_def recSticker_def HANDLE_SIZE_def)
  have sel: "toWorld (selectionTransform paddedText) (200, 72) = (300, 172)"
    unfolding selectionTransform_def Let_def pads toWorld_def
    by (simp add: paddedText_def recSticker_def orNum_def)
  have fwd: "toWorld (itemTransform paddedText) (200, 72) = (300, 172)"
    unfolding itemTransform_def Let_def pads toWorld_def
    by (simp add: paddedText_def recSticker_def orNum_def)
  have w: "(hitTotalW paddedText, hitTotalH paddedText) = (220, 92)"
    unfolding hitTotalW_def hitTotalH_def pads by (simp add: paddedText_def recSticker_def)
  have body: "bodyHit paddedText (300, 172)"
    unfolding bodyHit_def hitLocalD_def hitCenter_def hitTotalW_def hitTotalH_def pads Let_def
    by (simp add: paddedText_def recSticker_def orNum_def)
  have down: "interactionMode (handleMouseDown paddedTextSelected (300, 172)) = MOVE"
    unfolding handleMouseDown_def
    using body by (simp add: paddedTextSelected_def truthyStr_def paddedText_handle)
  show ?thesis
    using pads arc sel fwd w paddedText_local paddedText_handle down by simp
qed


section \<open>Floors of resize and crop\<close>

lemma moveItem_id: "item_id (moveItem mode init pos dx dy item) = item_id item"
  by (simp add: moveItem_def Let_def)




lemma handleMouseMove_items:
  "canvasItems (handleMouseMove s pos) = canvasItems s \<or>
   (\<exists>init. initialItemState s = Some init \<and>
      canvasItems (handleMouseMove s pos) =
        map (\<lambda>item. if Some (item_id item) = selectedItemId s
                     then moveItem (interactionMode s) init pos
                            (fst pos - fst (dragStartPos s)) (snd pos - snd (dragStartPos s)) item
                     else item) (canvasItems s))"
  by (cases "initialItemState s") (simp_all add: handleMouseMove_def Let_def)






end
